theory Spec2Isabelle
  imports Complex_Main "HOL-Library.Sublist"
begin

section \<open>Python values\<close>

text \<open>
  The handlers of \<^verbatim>\<open>app.py\<close> receive JSON bodies and query strings and hand Python
  values to the validation utilities. A float is a finite rational or one of the three
  special values (a JSON number such as \<^verbatim>\<open>1e999\<close> is read as infinity); rounding is
  not modelled. Strings are byte strings: the character classes below are the ASCII
  part of Python's.
\<close>

datatype pyfloat = Finite rat | PosInf | NegInf | NaN

record pydate =
  year :: int
  month :: int
  day :: int

datatype pyval =
    PNone
  | PBool bool
  | PInt int
  | PFloat pyfloat
  | PStr string
  | PDate pydate
  | PList "pyval list"
  | PDict "(string \<times> pyval) list"

text \<open>Exceptions are values; \<open>DbError\<close> carries \<^verbatim>\<open>str(exc)\<close> of a storage driver exception.\<close>

datatype exn =
    BadRequest string
  | NotFound
  | TypeError
  | ValueError
  | OverflowError
  | AttributeError
  | DbError string

text \<open>Truth value of a Python object, as \<^verbatim>\<open>not value\<close> and \<^verbatim>\<open>x or y\<close> test it.\<close>

fun truthy :: "pyval \<Rightarrow> bool" where
  "truthy PNone = False"
| "truthy (PBool b) = b"
| "truthy (PInt i) = (i \<noteq> 0)"
| "truthy (PFloat (Finite q)) = (q \<noteq> 0)"
| "truthy (PFloat _) = True"
| "truthy (PStr s) = (s \<noteq> [])"
| "truthy (PDate _) = True"
| "truthy (PList xs) = (xs \<noteq> [])"
| "truthy (PDict kvs) = (kvs \<noteq> [])"

definition isspace :: "char \<Rightarrow> bool" where
  "isspace c = (let n = (of_char c :: nat) in (9 \<le> n \<and> n \<le> 13) \<or> (28 \<le> n \<and> n \<le> 32))"

definition strip :: "string \<Rightarrow> string" where
  "strip s = rev (dropWhile isspace (rev (dropWhile isspace s)))"

definition lower_char :: "char \<Rightarrow> char" where
  "lower_char c = (let n = (of_char c :: nat) in
     if 65 \<le> n \<and> n \<le> 90 then char_of (n + 32) else c)"

definition lower :: "string \<Rightarrow> string" where
  "lower s = map lower_char s"

definition isdigit :: "char \<Rightarrow> bool" where
  "isdigit c = (let n = (of_char c :: nat) in 48 \<le> n \<and> n \<le> 57)"

definition digit_value :: "char \<Rightarrow> int" where
  "digit_value c = int (of_char c) - 48"

subsection \<open>The builtin \<^verbatim>\<open>int\<close>\<close>

text \<open>
  \<^verbatim>\<open>int(s)\<close> on a string: surrounding whitespace is dropped, one sign is allowed, then
  decimal digits, where single underscores may stand between digits.
\<close>

fun int_digits :: "string \<Rightarrow> int \<Rightarrow> int option" where
  "int_digits [] acc = Some acc"
| "int_digits [c] acc = (if isdigit c then Some (acc * 10 + digit_value c) else None)"
| "int_digits (c # d # cs) acc =
     (if isdigit c then int_digits (d # cs) (acc * 10 + digit_value c)
      else if c = CHR ''_'' \<and> isdigit d then int_digits cs (acc * 10 + digit_value d)
      else None)"

definition int_unsigned :: "string \<Rightarrow> int option" where
  "int_unsigned s = (case s of [] \<Rightarrow> None
     | c # cs \<Rightarrow> if isdigit c then int_digits cs (digit_value c) else None)"

definition int_of_str :: "string \<Rightarrow> int option" where
  "int_of_str s = (case strip s of
       [] \<Rightarrow> None
     | c # cs \<Rightarrow>
         if c = CHR ''-'' then map_option uminus (int_unsigned cs)
         else if c = CHR ''+'' then int_unsigned cs
         else int_unsigned (c # cs))"

text \<open>A float is cut toward zero.\<close>

definition trunc :: "rat \<Rightarrow> int" where
  "trunc q = (if 0 \<le> q then \<lfloor>q\<rfloor> else \<lceil>q\<rceil>)"

fun py_int :: "pyval \<Rightarrow> exn + int" where
  "py_int PNone = Inl TypeError"
| "py_int (PBool b) = Inr (if b then 1 else 0)"
| "py_int (PInt i) = Inr i"
| "py_int (PFloat (Finite q)) = Inr (trunc q)"
| "py_int (PFloat NaN) = Inl ValueError"
| "py_int (PFloat PosInf) = Inl OverflowError"
| "py_int (PFloat NegInf) = Inl OverflowError"
| "py_int (PStr s) = (case int_of_str s of None \<Rightarrow> Inl ValueError | Some i \<Rightarrow> Inr i)"
| "py_int (PDate _) = Inl TypeError"
| "py_int (PList _) = Inl TypeError"
| "py_int (PDict _) = Inl TypeError"

subsection \<open>Rendering integers and dates\<close>

definition digit_char :: "nat \<Rightarrow> char" where
  "digit_char n = char_of (48 + n mod 10)"

function str_of_nat :: "nat \<Rightarrow> string" where
  "str_of_nat n = (if n < 10 then [digit_char n] else str_of_nat (n div 10) @ [digit_char n])"
  by pat_completeness auto
termination
  by (relation "measure id") auto

declare str_of_nat.simps [simp del]

definition str_of_int :: "int \<Rightarrow> string" where
  "str_of_int i = (if i < 0 then CHR ''-'' # str_of_nat (nat (- i)) else str_of_nat (nat i))"

definition zero_pad :: "nat \<Rightarrow> string \<Rightarrow> string" where
  "zero_pad w s = replicate (w - length s) CHR ''0'' @ s"

text \<open>\<^verbatim>\<open>str(d)\<close> of a date is its ISO form.\<close>

definition str_of_date :: "pydate \<Rightarrow> string" where
  "str_of_date d = zero_pad 4 (str_of_nat (nat (year d))) @ ''-'' @
     zero_pad 2 (str_of_nat (nat (month d))) @ ''-'' @ zero_pad 2 (str_of_nat (nat (day d)))"

subsection \<open>\<^verbatim>\<open>date.fromisoformat\<close>\<close>

text \<open>
  The library function as documented up to Python 3.10, and as the source's own error
  text names it: exactly ten characters \<^verbatim>\<open>YYYY-MM-DD\<close>, all digits, denoting a day
  of the proleptic Gregorian calendar with year 1 to 9999. (Later interpreters also
  read the basic format and ISO week dates; those strings are outside this model.)
\<close>

definition is_leap :: "int \<Rightarrow> bool" where
  "is_leap y = (y mod 4 = 0 \<and> (y mod 100 \<noteq> 0 \<or> y mod 400 = 0))"

definition days_in_month :: "int \<Rightarrow> int \<Rightarrow> int" where
  "days_in_month y m =
     (if m = 2 then (if is_leap y then 29 else 28)
      else if m = 4 \<or> m = 6 \<or> m = 9 \<or> m = 11 then 30 else 31)"

definition valid_date :: "int \<Rightarrow> int \<Rightarrow> int \<Rightarrow> bool" where
  "valid_date y m d =
     (1 \<le> y \<and> y \<le> 9999 \<and> 1 \<le> m \<and> m \<le> 12 \<and> 1 \<le> d \<and> d \<le> days_in_month y m)"

definition digits_value :: "string \<Rightarrow> int" where
  "digits_value s = foldl (\<lambda>acc c. acc * 10 + digit_value c) 0 s"

definition iso_form :: "string \<Rightarrow> bool" where
  "iso_form s = (length s = 10 \<and> list_all isdigit (take 4 s) \<and> s ! 4 = CHR ''-'' \<and>
     list_all isdigit (take 2 (drop 5 s)) \<and> s ! 7 = CHR ''-'' \<and>
     list_all isdigit (take 2 (drop 8 s)))"

definition fromisoformat :: "string \<Rightarrow> pydate option" where
  "fromisoformat s =
     (if iso_form s then
        (let y = digits_value (take 4 s); m = digits_value (take 2 (drop 5 s));
             d = digits_value (take 2 (drop 8 s))
         in if valid_date y m d then Some \<lparr>year = y, month = m, day = d\<rparr> else None)
      else None)"

section \<open>Validation utilities\<close>

text \<open>
  \<^verbatim>\<open>_parse_int\<close>: only \<^verbatim>\<open>TypeError\<close> and \<^verbatim>\<open>ValueError\<close> are caught; any other
  exception of \<^verbatim>\<open>int(value)\<close> leaves the function as it is.
\<close>

definition parse_int :: "pyval \<Rightarrow> string \<Rightarrow> int option \<Rightarrow> exn + int" where
  "parse_int v field minimum =
     (case py_int v of
        Inl TypeError \<Rightarrow> Inl (BadRequest (field @ '' must be an integer''))
      | Inl ValueError \<Rightarrow> Inl (BadRequest (field @ '' must be an integer''))
      | Inl e \<Rightarrow> Inl e
      | Inr parsed \<Rightarrow>
          (case minimum of
             None \<Rightarrow> Inr parsed
           | Some m \<Rightarrow>
               if parsed < m then Inl (BadRequest (field @ '' must be >= '' @ str_of_int m))
               else Inr parsed))"

definition parse_date :: "pyval \<Rightarrow> string \<Rightarrow> exn + pydate" where
  "parse_date v field =
     (if \<not> truthy v then Inl (BadRequest (field @ '' must be a date string (YYYY-MM-DD)''))
      else case v of
        PStr s \<Rightarrow>
          (case fromisoformat s of
             Some d \<Rightarrow> Inr d
           | None \<Rightarrow> Inl (BadRequest (field @ '' must be a date string (YYYY-MM-DD)'')))
      | _ \<Rightarrow> Inl (BadRequest (field @ '' must be a date string (YYYY-MM-DD)'')))"

text \<open>
  \<^verbatim>\<open>_parse_decimal\<close>: the builtin \<^verbatim>\<open>float\<close> is a parameter (its rounding and its
  reading of strings are not modelled); the function catches what \<^verbatim>\<open>_parse_int\<close>
  catches.
\<close>

definition parse_decimal :: "(pyval \<Rightarrow> exn + pyfloat) \<Rightarrow> pyval \<Rightarrow> string \<Rightarrow> exn + pyfloat" where
  "parse_decimal float_of v field =
     (case float_of v of
        Inl TypeError \<Rightarrow> Inl (BadRequest (field @ '' must be a number''))
      | Inl ValueError \<Rightarrow> Inl (BadRequest (field @ '' must be a number''))
      | Inl e \<Rightarrow> Inl e
      | Inr parsed \<Rightarrow> Inr parsed)"

text \<open>
  \<^verbatim>\<open>_EMAIL_RE\<close> is \<^verbatim>\<open>^[^@\s]+@[^@\s]+\.[^@\s]+$\<close>: one \<^verbatim>\<open>@\<close>, no whitespace, a
  dot inside the domain with a character on each side. \<^verbatim>\<open>$\<close> also matches before
  one final newline.
\<close>

definition email_core :: "string \<Rightarrow> bool" where
  "email_core s =
     (let local = takeWhile (\<lambda>c. c \<noteq> CHR ''@'') s;
          rest = dropWhile (\<lambda>c. c \<noteq> CHR ''@'') s
      in local \<noteq> [] \<and> rest \<noteq> [] \<and> \<not> list_ex isspace s \<and>
         CHR ''@'' \<notin> set (tl rest) \<and> CHR ''.'' \<in> set (butlast (tl (tl rest))))"

definition email_match :: "string \<Rightarrow> bool" where
  "email_match s =
     (email_core s \<or> (s \<noteq> [] \<and> last s = CHR 0x0A \<and> email_core (butlast s)))"

definition validate_email :: "pyval \<Rightarrow> exn + string" where
  "validate_email email =
     (case email of
        PStr s \<Rightarrow> if email_match s then Inr s
                  else Inl (BadRequest ''email must be a valid email address'')
      | _ \<Rightarrow> Inl (BadRequest ''email must be a valid email address''))"

section \<open>Requests and the response encoder\<close>

text \<open>
  What a handler reads of a request: the query parameters in order
  (\<^verbatim>\<open>request.args.get\<close> gives the first value of a name), the \<^verbatim>\<open>Authorization\<close>
  header, and the result of \<^verbatim>\<open>request.get_json(silent=True)\<close>, which is \<^verbatim>\<open>None\<close>
  when there is no readable JSON body.
\<close>

record request =
  args :: "(string \<times> string) list"
  authorization :: "string option"
  json :: pyval

text \<open>
  A body is kept as the payload and the encoder chosen for it, not as bytes:
  \<^verbatim>\<open>jsonify\<close> and \<^verbatim>\<open>dicttoxml\<close> are library code.
\<close>

datatype body = JsonBody pyval | XmlBody string pyval

record response =
  status :: int
  content_type :: string
  body :: body
  location :: "string option"

definition format_error :: string where
  "format_error = ''format must be '' @ [CHR 0x27] @ ''json'' @ [CHR 0x27] @ '' or '' @
     [CHR 0x27] @ ''xml'' @ [CHR 0x27]"

definition get_format :: "request \<Rightarrow> exn + string" where
  "get_format req =
     (let raw = (case map_of (args req) ''format'' of
                   None \<Rightarrow> ''json''
                 | Some v \<Rightarrow> if v = [] then ''json'' else v);
          fmt = lower (strip raw)
      in if fmt \<noteq> ''json'' \<and> fmt \<noteq> ''xml'' then Inl (BadRequest format_error) else Inr fmt)"

definition api_response :: "request \<Rightarrow> pyval \<Rightarrow> int \<Rightarrow> string \<Rightarrow> exn + response" where
  "api_response req payload st root_name =
     (case get_format req of
        Inl e \<Rightarrow> Inl e
      | Inr fmt \<Rightarrow>
          if fmt = ''xml'' then
            Inr \<lparr>status = st, content_type = ''application/xml; charset=utf-8'',
                 body = XmlBody root_name payload, location = None\<rparr>
          else
            Inr \<lparr>status = st, content_type = ''application/json'',
                 body = JsonBody payload, location = None\<rparr>)"

definition error_response ::
  "request \<Rightarrow> string \<Rightarrow> int \<Rightarrow> (string \<times> pyval) list option \<Rightarrow> exn + response" where
  "error_response req message st details =
     (let payload = [(''error'', PStr message), (''status'', PInt st)];
          payload' = (case details of
                        None \<Rightarrow> payload
                      | Some d \<Rightarrow> if d = [] then payload else payload @ [(''details'', PDict d)])
      in api_response req (PDict payload') st ''error'')"

definition format_suffix :: "request \<Rightarrow> string" where
  "format_suffix req =
     (case map_of (args req) ''format'' of
        None \<Rightarrow> []
      | Some fmt \<Rightarrow> if fmt = [] then [] else ''?format='' @ fmt)"

section \<open>The auth gate\<close>

text \<open>
  \<^verbatim>\<open>jwt.decode\<close> and \<^verbatim>\<open>jwt.encode\<close> are library code and, with the builtin
  \<^verbatim>\<open>float\<close>, the configuration and Flask's exception propagation switch, parameters of
  the application.
\<close>

datatype jwt_outcome = Decoded | ExpiredSignatureError | InvalidTokenError

record env =
  jwt_decode :: "string \<Rightarrow> string \<Rightarrow> jwt_outcome"
  jwt_encode :: "string \<Rightarrow> string \<Rightarrow> string"
  py_float :: "pyval \<Rightarrow> exn + pyfloat"
  JWT_SECRET_KEY :: string
  API_USERNAME :: string
  API_PASSWORD :: string
  propagate_exceptions :: bool

text \<open>
  A view takes the request and the database and gives a response or an exception, and
  the database it leaves. \<^verbatim>\<open>require_jwt\<close> wraps a view.
\<close>

definition require_jwt ::
  "env \<Rightarrow> (request \<Rightarrow> 'db \<Rightarrow> (exn + response) \<times> 'db) \<Rightarrow> request \<Rightarrow> 'db \<Rightarrow> (exn + response) \<times> 'db" where
  "require_jwt e fn req db =
     (let header = (case authorization req of None \<Rightarrow> [] | Some h \<Rightarrow> h)
      in if \<not> prefix ''Bearer '' header then
           (error_response req ''Missing or invalid Authorization header'' 401 None, db)
         else
           (let token = strip (drop 1 (dropWhile (\<lambda>c. c \<noteq> CHR '' '') header))
            in case jwt_decode e token (JWT_SECRET_KEY e) of
                 ExpiredSignatureError \<Rightarrow> (error_response req ''Token expired'' 401 None, db)
               | InvalidTokenError \<Rightarrow> (error_response req ''Invalid token'' 401 None, db)
               | Decoded \<Rightarrow> fn req db))"

section \<open>Storage\<close>

text \<open>
  Modelled from the spec: the relational schema is not among the sources (the spec
  names it as owned by the database). The five tables hold rows, a row being the
  mapping of column names to values that the cursor returns; \<open>categories\<close>,
  \<open>regions\<close> and \<open>products\<close> number their rows themselves (the handlers read
  \<^verbatim>\<open>cur.lastrowid\<close>), \<open>customers\<close> and \<open>sales_fact\<close> take the key from the caller
  and refuse a second row with it. Every other failure of the storage layer (a lost
  connection, a constraint of the schema) is the field \<open>fault\<close>: the message of the
  exception that the next statement raises, if any.
\<close>

type_synonym row = "(string \<times> pyval) list"

datatype table = Categories | Regions | Customers | Products | SalesFact

record database =
  tables :: "table \<Rightarrow> row list"
  auto_increment :: "table \<Rightarrow> int"
  fault :: "string option"

fun pk :: "table \<Rightarrow> string" where
  "pk Categories = ''category_id''"
| "pk Regions = ''region_id''"
| "pk Customers = ''customer_id''"
| "pk Products = ''product_id''"
| "pk SalesFact = ''sale_id''"

definition col :: "row \<Rightarrow> string \<Rightarrow> pyval" where
  "col r k = (case map_of r k of None \<Rightarrow> PNone | Some v \<Rightarrow> v)"

definition int_col :: "string \<Rightarrow> row \<Rightarrow> int" where
  "int_col k r = (case col r k of PInt i \<Rightarrow> i | _ \<Rightarrow> 0)"

definition set_col :: "string \<Rightarrow> pyval \<Rightarrow> row \<Rightarrow> row" where
  "set_col k v r = map (\<lambda>(k', v'). if k' = k then (k', v) else (k', v')) r"

definition has_id :: "table \<Rightarrow> int \<Rightarrow> row \<Rightarrow> bool" where
  "has_id t i r = (col r (pk t) = PInt i)"

definition duplicate_entry :: "int \<Rightarrow> string" where
  "duplicate_entry i = ''(1062, '' @ [CHR 0x22] @ ''Duplicate entry '' @ [CHR 0x27] @
     str_of_int i @ [CHR 0x27] @ '' for key '' @ [CHR 0x27] @ ''PRIMARY'' @ [CHR 0x27] @
     [CHR 0x22] @ '')''"

text \<open>\<^verbatim>\<open>SELECT ... FROM t ORDER BY\<close> key, and \<^verbatim>\<open>SELECT ... WHERE\<close> key \<^verbatim>\<open>= %s\<close> with \<^verbatim>\<open>fetchone\<close>.\<close>

definition sql_select_all :: "table \<Rightarrow> database \<Rightarrow> exn + row list" where
  "sql_select_all t db =
     (case fault db of
        Some m \<Rightarrow> Inl (DbError m)
      | None \<Rightarrow> Inr (sort_key (int_col (pk t)) (tables db t)))"

definition sql_select_by_id :: "table \<Rightarrow> int \<Rightarrow> database \<Rightarrow> exn + row option" where
  "sql_select_by_id t i db =
     (case fault db of
        Some m \<Rightarrow> Inl (DbError m)
      | None \<Rightarrow> Inr (find (has_id t i) (tables db t)))"

text \<open>\<^verbatim>\<open>INSERT\<close> without a key gives the new key (\<^verbatim>\<open>cur.lastrowid\<close>); with a key it fails on a duplicate.\<close>

definition sql_insert_auto :: "table \<Rightarrow> row \<Rightarrow> database \<Rightarrow> exn + int \<times> database" where
  "sql_insert_auto t cols db =
     (case fault db of
        Some m \<Rightarrow> Inl (DbError m)
      | None \<Rightarrow>
          (let new_id = auto_increment db t
           in Inr (new_id,
                db\<lparr>tables := (tables db)(t := tables db t @ [(pk t, PInt new_id) # cols]),
                   auto_increment := (auto_increment db)(t := new_id + 1)\<rparr>)))"

definition sql_insert :: "table \<Rightarrow> int \<Rightarrow> row \<Rightarrow> database \<Rightarrow> exn + database" where
  "sql_insert t i cols db =
     (case fault db of
        Some m \<Rightarrow> Inl (DbError m)
      | None \<Rightarrow>
          if list_ex (has_id t i) (tables db t) then Inl (DbError (duplicate_entry i))
          else Inr (db\<lparr>tables := (tables db)(t := tables db t @ [(pk t, PInt i) # cols])\<rparr>))"

text \<open>
  \<^verbatim>\<open>UPDATE\<close> and \<^verbatim>\<open>DELETE\<close> give \<^verbatim>\<open>cur.rowcount\<close>: the rows changed (a row that
  already holds the new values does not count), and the rows removed.
\<close>

definition set_cols :: "row \<Rightarrow> row \<Rightarrow> row" where
  "set_cols cols r = foldl (\<lambda>acc (k, v). set_col k v acc) r cols"

definition sql_update :: "table \<Rightarrow> int \<Rightarrow> row \<Rightarrow> database \<Rightarrow> exn + nat \<times> database" where
  "sql_update t i cols db =
     (case fault db of
        Some m \<Rightarrow> Inl (DbError m)
      | None \<Rightarrow>
          (let hit = (\<lambda>r. has_id t i r \<and> set_cols cols r \<noteq> r)
           in Inr (length (filter hit (tables db t)),
                db\<lparr>tables := (tables db)(t := map (\<lambda>r. if hit r then set_cols cols r else r)
                                                  (tables db t))\<rparr>)))"

definition sql_delete :: "table \<Rightarrow> int \<Rightarrow> database \<Rightarrow> exn + nat \<times> database" where
  "sql_delete t i db =
     (case fault db of
        Some m \<Rightarrow> Inl (DbError m)
      | None \<Rightarrow>
          Inr (length (filter (has_id t i) (tables db t)),
               db\<lparr>tables := (tables db)(t := filter (\<lambda>r. \<not> has_id t i r) (tables db t))\<rparr>))"

text \<open>The join of the product queries: a product with its category's name.\<close>

definition product_join :: "database \<Rightarrow> row \<Rightarrow> row list" where
  "product_join db p =
     map (\<lambda>c. [(''product_id'', col p ''product_id''), (''product_name'', col p ''product_name''),
                (''category_id'', col p ''category_id''), (''category_name'', col c ''category_name'')])
       (filter (\<lambda>c. col c ''category_id'' = col p ''category_id'') (tables db Categories))"

definition sql_select_products :: "database \<Rightarrow> exn + row list" where
  "sql_select_products db =
     (case fault db of
        Some m \<Rightarrow> Inl (DbError m)
      | None \<Rightarrow> Inr (concat (map (product_join db)
                   (sort_key (int_col ''product_id'') (tables db Products)))))"

definition sql_select_product :: "int \<Rightarrow> database \<Rightarrow> exn + row option" where
  "sql_select_product i db =
     (case fault db of
        Some m \<Rightarrow> Inl (DbError m)
      | None \<Rightarrow>
          (case concat (map (product_join db) (filter (has_id Products i) (tables db Products))) of
             [] \<Rightarrow> Inr None
           | r # _ \<Rightarrow> Inr (Some r)))"

section \<open>Handlers\<close>

text \<open>\<^verbatim>\<open>str(exc)\<close>; a \<^verbatim>\<open>BadRequest\<close> prints its code, name and description.\<close>

fun str_of_exn :: "exn \<Rightarrow> string" where
  "str_of_exn (BadRequest d) = ''400 Bad Request: '' @ d"
| "str_of_exn NotFound = ''404 Not Found: The requested URL was not found on the server.''"
| "str_of_exn (DbError m) = m"
| "str_of_exn _ = []"

definition handle_db_error :: "request \<Rightarrow> exn \<Rightarrow> exn + response" where
  "handle_db_error req exc =
     (let msg = str_of_exn exc
      in if sublist ''Duplicate entry'' msg then error_response req ''Conflict (duplicate key)'' 409 None
         else error_response req ''Database error'' 500 None)"

text \<open>
  \<^verbatim>\<open>body = request.get_json(silent=True) or {}\<close>, \<^verbatim>\<open>body.get(k)\<close> and
  \<^verbatim>\<open>(body.get(k) or "").strip()\<close>. A body that is not an object has no \<^verbatim>\<open>get\<close>, a
  value that is not a string has no \<^verbatim>\<open>strip\<close>.
\<close>

definition get_body :: "request \<Rightarrow> pyval" where
  "get_body req = (if truthy (json req) then json req else PDict [])"

definition body_get :: "pyval \<Rightarrow> string \<Rightarrow> exn + pyval" where
  "body_get b k =
     (case b of
        PDict kvs \<Rightarrow> Inr (case map_of kvs k of None \<Rightarrow> PNone | Some v \<Rightarrow> v)
      | _ \<Rightarrow> Inl AttributeError)"

definition stripped :: "pyval \<Rightarrow> string \<Rightarrow> exn + string" where
  "stripped b k =
     (case body_get b k of
        Inl e \<Rightarrow> Inl e
      | Inr v \<Rightarrow>
          if \<not> truthy v then Inr []
          else (case v of PStr s \<Rightarrow> Inr (strip s) | _ \<Rightarrow> Inl AttributeError))"

text \<open>Sequencing: the first exception ends the computation.\<close>

definition andthen :: "exn + 'a \<Rightarrow> ('a \<Rightarrow> (exn + 'b) \<times> 'db) \<Rightarrow> 'db \<Rightarrow> (exn + 'b) \<times> 'db" where
  "andthen x f db = (case x of Inl e \<Rightarrow> (Inl e, db) | Inr v \<Rightarrow> f v)"

text \<open>
  The end of a \<^verbatim>\<open>try\<close> block: the response is built inside it, so an exception of
  \<^verbatim>\<open>api_response\<close> or \<^verbatim>\<open>error_response\<close> is caught like a storage failure.
\<close>

definition caught :: "request \<Rightarrow> exn + response \<Rightarrow> exn + response" where
  "caught req r = (case r of Inl e \<Rightarrow> handle_db_error req e | Inr resp \<Rightarrow> Inr resp)"

definition with_location :: "string \<Rightarrow> exn + response \<Rightarrow> exn + response" where
  "with_location loc r = (case r of Inl e \<Rightarrow> Inl e | Inr resp \<Rightarrow> Inr (resp\<lparr>location := Some loc\<rparr>))"

definition stringify :: "string \<Rightarrow> row \<Rightarrow> row" where
  "stringify k r = (case col r k of PDate d \<Rightarrow> set_col k (PStr (str_of_date d)) r | _ \<Rightarrow> r)"

type_synonym view = "request \<Rightarrow> database \<Rightarrow> (exn + response) \<times> database"

subsection \<open>Health and login\<close>

definition health :: view where
  "health req db = (api_response req (PDict [(''status'', PStr ''ok'')]) 200 ''response'', db)"

definition login :: "env \<Rightarrow> view" where
  "login e req db =
     andthen (body_get (get_body req) ''username'') (\<lambda>username.
     andthen (body_get (get_body req) ''password'') (\<lambda>password.
       if username \<noteq> PStr (API_USERNAME e) \<or> password \<noteq> PStr (API_PASSWORD e) then
         (error_response req ''Invalid credentials'' 401 None, db)
       else
         (api_response req
            (PDict [(''access_token'', PStr (jwt_encode e (API_USERNAME e) (JWT_SECRET_KEY e))),
                    (''token_type'', PStr ''Bearer''), (''expires_in'', PInt 3600)])
            200 ''response'', db)) db) db"

subsection \<open>Categories\<close>

definition list_categories :: view where
  "list_categories req db =
     (case sql_select_all Categories db of
        Inl e \<Rightarrow> (handle_db_error req e, db)
      | Inr rows \<Rightarrow>
          (caught req (api_response req (PDict [(''items'', PList (map PDict rows))]) 200 ''response''), db))"

definition create_category :: view where
  "create_category req db =
     andthen (stripped (get_body req) ''category_name'') (\<lambda>name.
       if name = [] then (error_response req ''category_name is required'' 400 None, db)
       else
         (case sql_insert_auto Categories [(''category_name'', PStr name)] db of
            Inl e \<Rightarrow> (handle_db_error req e, db)
          | Inr (new_id, db') \<Rightarrow>
              (caught req
                 (with_location (''/api/categories/'' @ str_of_int new_id @ format_suffix req)
                    (api_response req
                       (PDict [(''category_id'', PInt new_id), (''category_name'', PStr name)])
                       201 ''response'')), db'))) db"

definition get_category :: "int \<Rightarrow> view" where
  "get_category category_id req db =
     (case sql_select_by_id Categories category_id db of
        Inl e \<Rightarrow> (handle_db_error req e, db)
      | Inr None \<Rightarrow> (caught req (error_response req ''Category not found'' 404 None), db)
      | Inr (Some r) \<Rightarrow>
          if r = [] then (caught req (error_response req ''Category not found'' 404 None), db)
          else (caught req (api_response req (PDict r) 200 ''response''), db))"

definition update_category :: "int \<Rightarrow> view" where
  "update_category category_id req db =
     andthen (stripped (get_body req) ''category_name'') (\<lambda>name.
       if name = [] then (error_response req ''category_name is required'' 400 None, db)
       else
         (case sql_update Categories category_id [(''category_name'', PStr name)] db of
            Inl e \<Rightarrow> (handle_db_error req e, db)
          | Inr (rowcount, db') \<Rightarrow>
              if rowcount = 0 then (caught req (error_response req ''Category not found'' 404 None), db')
              else
                (caught req
                   (api_response req
                      (PDict [(''category_id'', PInt category_id), (''category_name'', PStr name)])
                      200 ''response''), db'))) db"

definition delete_category :: "int \<Rightarrow> view" where
  "delete_category category_id req db =
     (case sql_delete Categories category_id db of
        Inl e \<Rightarrow> (handle_db_error req e, db)
      | Inr (rowcount, db') \<Rightarrow>
          if rowcount = 0 then (caught req (error_response req ''Category not found'' 404 None), db')
          else
            (caught req
               (api_response req
                  (PDict [(''deleted'', PBool True), (''category_id'', PInt category_id)])
                  200 ''response''), db'))"

subsection \<open>Regions\<close>

definition list_regions :: view where
  "list_regions req db =
     (case sql_select_all Regions db of
        Inl e \<Rightarrow> (handle_db_error req e, db)
      | Inr rows \<Rightarrow>
          (caught req (api_response req (PDict [(''items'', PList (map PDict rows))]) 200 ''response''), db))"

definition create_region :: view where
  "create_region req db =
     andthen (stripped (get_body req) ''region_name'') (\<lambda>name.
       if name = [] then (error_response req ''region_name is required'' 400 None, db)
       else
         (case sql_insert_auto Regions [(''region_name'', PStr name)] db of
            Inl e \<Rightarrow> (handle_db_error req e, db)
          | Inr (new_id, db') \<Rightarrow>
              (caught req
                 (with_location (''/api/regions/'' @ str_of_int new_id @ format_suffix req)
                    (api_response req
                       (PDict [(''region_id'', PInt new_id), (''region_name'', PStr name)])
                       201 ''response'')), db'))) db"

definition get_region :: "int \<Rightarrow> view" where
  "get_region region_id req db =
     (case sql_select_by_id Regions region_id db of
        Inl e \<Rightarrow> (handle_db_error req e, db)
      | Inr None \<Rightarrow> (caught req (error_response req ''Region not found'' 404 None), db)
      | Inr (Some r) \<Rightarrow>
          if r = [] then (caught req (error_response req ''Region not found'' 404 None), db)
          else (caught req (api_response req (PDict r) 200 ''response''), db))"

definition update_region :: "int \<Rightarrow> view" where
  "update_region region_id req db =
     andthen (stripped (get_body req) ''region_name'') (\<lambda>name.
       if name = [] then (error_response req ''region_name is required'' 400 None, db)
       else
         (case sql_update Regions region_id [(''region_name'', PStr name)] db of
            Inl e \<Rightarrow> (handle_db_error req e, db)
          | Inr (rowcount, db') \<Rightarrow>
              if rowcount = 0 then (caught req (error_response req ''Region not found'' 404 None), db')
              else
                (caught req
                   (api_response req
                      (PDict [(''region_id'', PInt region_id), (''region_name'', PStr name)])
                      200 ''response''), db'))) db"

definition delete_region :: "int \<Rightarrow> view" where
  "delete_region region_id req db =
     (case sql_delete Regions region_id db of
        Inl e \<Rightarrow> (handle_db_error req e, db)
      | Inr (rowcount, db') \<Rightarrow>
          if rowcount = 0 then (caught req (error_response req ''Region not found'' 404 None), db')
          else
            (caught req
               (api_response req
                  (PDict [(''deleted'', PBool True), (''region_id'', PInt region_id)])
                  200 ''response''), db'))"

subsection \<open>Customers\<close>

text \<open>A field of the body handed to a validation utility under its own name.\<close>

definition int_field :: "pyval \<Rightarrow> string \<Rightarrow> exn + int" where
  "int_field b k = (case body_get b k of Inl e \<Rightarrow> Inl e | Inr v \<Rightarrow> parse_int v k (Some 1))"

definition date_field :: "pyval \<Rightarrow> string \<Rightarrow> exn + pydate" where
  "date_field b k = (case body_get b k of Inl e \<Rightarrow> Inl e | Inr v \<Rightarrow> parse_date v k)"

definition decimal_field :: "env \<Rightarrow> pyval \<Rightarrow> string \<Rightarrow> exn + pyfloat" where
  "decimal_field e b k =
     (case body_get b k of Inl e' \<Rightarrow> Inl e' | Inr v \<Rightarrow> parse_decimal (py_float e) v k)"

definition email_field :: "pyval \<Rightarrow> exn + string" where
  "email_field b = (case body_get b ''email'' of Inl e \<Rightarrow> Inl e | Inr v \<Rightarrow> validate_email v)"

definition list_customers :: view where
  "list_customers req db =
     (case sql_select_all Customers db of
        Inl e \<Rightarrow> (handle_db_error req e, db)
      | Inr rows \<Rightarrow>
          (caught req
             (api_response req
                (PDict [(''items'', PList (map (PDict \<circ> stringify ''signup_date'') rows))])
                200 ''response''), db))"

definition customer_payload :: "int \<Rightarrow> string \<Rightarrow> string \<Rightarrow> string \<Rightarrow> pydate \<Rightarrow> pyval" where
  "customer_payload customer_id first_name last_name email signup_date =
     PDict [(''customer_id'', PInt customer_id), (''first_name'', PStr first_name),
            (''last_name'', PStr last_name), (''email'', PStr email),
            (''signup_date'', PStr (str_of_date signup_date))]"

definition create_customer :: view where
  "create_customer req db =
     andthen (int_field (get_body req) ''customer_id'') (\<lambda>customer_id.
     andthen (stripped (get_body req) ''first_name'') (\<lambda>first_name.
     andthen (stripped (get_body req) ''last_name'') (\<lambda>last_name.
     andthen (email_field (get_body req)) (\<lambda>email.
     andthen (date_field (get_body req) ''signup_date'') (\<lambda>signup_date.
       if first_name = [] \<or> last_name = [] then
         (error_response req ''first_name and last_name are required'' 400 None, db)
       else
         (case sql_insert Customers customer_id
                 [(''first_name'', PStr first_name), (''last_name'', PStr last_name),
                  (''email'', PStr email), (''signup_date'', PDate signup_date)] db of
            Inl e \<Rightarrow> (handle_db_error req e, db)
          | Inr db' \<Rightarrow>
              (caught req
                 (with_location (''/api/customers/'' @ str_of_int customer_id @ format_suffix req)
                    (api_response req
                       (customer_payload customer_id first_name last_name email signup_date)
                       201 ''response'')), db'))) db) db) db) db) db"

definition get_customer :: "int \<Rightarrow> view" where
  "get_customer customer_id req db =
     (case sql_select_by_id Customers customer_id db of
        Inl e \<Rightarrow> (handle_db_error req e, db)
      | Inr None \<Rightarrow> (caught req (error_response req ''Customer not found'' 404 None), db)
      | Inr (Some r) \<Rightarrow>
          if r = [] then (caught req (error_response req ''Customer not found'' 404 None), db)
          else (caught req (api_response req (PDict (stringify ''signup_date'' r)) 200 ''response''), db))"

definition update_customer :: "int \<Rightarrow> view" where
  "update_customer customer_id req db =
     andthen (stripped (get_body req) ''first_name'') (\<lambda>first_name.
     andthen (stripped (get_body req) ''last_name'') (\<lambda>last_name.
     andthen (body_get (get_body req) ''email'') (\<lambda>email.
     andthen (body_get (get_body req) ''signup_date'') (\<lambda>signup_date.
       if first_name = [] \<or> last_name = [] then
         (error_response req ''first_name and last_name are required'' 400 None, db)
       else if email = PNone \<or> signup_date = PNone then
         (error_response req ''email and signup_date are required'' 400 None, db)
       else
         andthen (validate_email email) (\<lambda>email.
         andthen (parse_date signup_date ''signup_date'') (\<lambda>signup_date.
           (case sql_update Customers customer_id
                   [(''first_name'', PStr first_name), (''last_name'', PStr last_name),
                    (''email'', PStr email), (''signup_date'', PDate signup_date)] db of
              Inl e \<Rightarrow> (handle_db_error req e, db)
            | Inr (rowcount, db') \<Rightarrow>
                if rowcount = 0 then
                  (caught req (error_response req ''Customer not found'' 404 None), db')
                else
                  (caught req
                     (api_response req
                        (customer_payload customer_id first_name last_name email signup_date)
                        200 ''response''), db'))) db) db) db) db) db) db"

definition delete_customer :: "int \<Rightarrow> view" where
  "delete_customer customer_id req db =
     (case sql_delete Customers customer_id db of
        Inl e \<Rightarrow> (handle_db_error req e, db)
      | Inr (rowcount, db') \<Rightarrow>
          if rowcount = 0 then (caught req (error_response req ''Customer not found'' 404 None), db')
          else
            (caught req
               (api_response req
                  (PDict [(''deleted'', PBool True), (''customer_id'', PInt customer_id)])
                  200 ''response''), db'))"

subsection \<open>Products\<close>

definition list_products :: view where
  "list_products req db =
     (case sql_select_products db of
        Inl e \<Rightarrow> (handle_db_error req e, db)
      | Inr rows \<Rightarrow>
          (caught req (api_response req (PDict [(''items'', PList (map PDict rows))]) 200 ''response''), db))"

definition create_product :: view where
  "create_product req db =
     andthen (stripped (get_body req) ''product_name'') (\<lambda>name.
     andthen (int_field (get_body req) ''category_id'') (\<lambda>category_id.
       if name = [] then (error_response req ''product_name is required'' 400 None, db)
       else
         (case sql_insert_auto Products
                 [(''product_name'', PStr name), (''category_id'', PInt category_id)] db of
            Inl e \<Rightarrow> (handle_db_error req e, db)
          | Inr (new_id, db') \<Rightarrow>
              (caught req
                 (with_location (''/api/products/'' @ str_of_int new_id @ format_suffix req)
                    (api_response req
                       (PDict [(''product_id'', PInt new_id), (''product_name'', PStr name),
                               (''category_id'', PInt category_id)])
                       201 ''response'')), db'))) db) db"

definition get_product :: "int \<Rightarrow> view" where
  "get_product product_id req db =
     (case sql_select_product product_id db of
        Inl e \<Rightarrow> (handle_db_error req e, db)
      | Inr None \<Rightarrow> (caught req (error_response req ''Product not found'' 404 None), db)
      | Inr (Some r) \<Rightarrow>
          if r = [] then (caught req (error_response req ''Product not found'' 404 None), db)
          else (caught req (api_response req (PDict r) 200 ''response''), db))"

definition update_product :: "int \<Rightarrow> view" where
  "update_product product_id req db =
     andthen (stripped (get_body req) ''product_name'') (\<lambda>name.
     andthen (int_field (get_body req) ''category_id'') (\<lambda>category_id.
       if name = [] then (error_response req ''product_name is required'' 400 None, db)
       else
         (case sql_update Products product_id
                 [(''product_name'', PStr name), (''category_id'', PInt category_id)] db of
            Inl e \<Rightarrow> (handle_db_error req e, db)
          | Inr (rowcount, db') \<Rightarrow>
              if rowcount = 0 then (caught req (error_response req ''Product not found'' 404 None), db')
              else
                (caught req
                   (api_response req
                      (PDict [(''product_id'', PInt product_id), (''product_name'', PStr name),
                              (''category_id'', PInt category_id)])
                      200 ''response''), db'))) db) db"

definition delete_product :: "int \<Rightarrow> view" where
  "delete_product product_id req db =
     (case sql_delete Products product_id db of
        Inl e \<Rightarrow> (handle_db_error req e, db)
      | Inr (rowcount, db') \<Rightarrow>
          if rowcount = 0 then (caught req (error_response req ''Product not found'' 404 None), db')
          else
            (caught req
               (api_response req
                  (PDict [(''deleted'', PBool True), (''product_id'', PInt product_id)])
                  200 ''response''), db'))"

subsection \<open>Sales\<close>

definition list_sales :: view where
  "list_sales req db =
     (case sql_select_all SalesFact db of
        Inl e \<Rightarrow> (handle_db_error req e, db)
      | Inr rows \<Rightarrow>
          (caught req
             (api_response req
                (PDict [(''items'', PList (map (PDict \<circ> stringify ''sale_date'') rows))])
                200 ''response''), db))"

definition sale_payload ::
  "int \<Rightarrow> int \<Rightarrow> pydate \<Rightarrow> int \<Rightarrow> pyfloat \<Rightarrow> int \<Rightarrow> int \<Rightarrow> pyval" where
  "sale_payload sale_id product_id sale_date quantity price customer_id region_id =
     PDict [(''sale_id'', PInt sale_id), (''product_id'', PInt product_id),
            (''sale_date'', PStr (str_of_date sale_date)), (''quantity'', PInt quantity),
            (''price'', PFloat price), (''customer_id'', PInt customer_id),
            (''region_id'', PInt region_id)]"

definition sale_cols :: "int \<Rightarrow> pydate \<Rightarrow> int \<Rightarrow> pyfloat \<Rightarrow> int \<Rightarrow> int \<Rightarrow> row" where
  "sale_cols product_id sale_date quantity price customer_id region_id =
     [(''product_id'', PInt product_id), (''sale_date'', PDate sale_date),
      (''quantity'', PInt quantity), (''price'', PFloat price),
      (''customer_id'', PInt customer_id), (''region_id'', PInt region_id)]"

definition create_sale :: "env \<Rightarrow> view" where
  "create_sale e req db =
     andthen (int_field (get_body req) ''sale_id'') (\<lambda>sale_id.
     andthen (int_field (get_body req) ''product_id'') (\<lambda>product_id.
     andthen (date_field (get_body req) ''sale_date'') (\<lambda>sale_date.
     andthen (int_field (get_body req) ''quantity'') (\<lambda>quantity.
     andthen (decimal_field e (get_body req) ''price'') (\<lambda>price.
     andthen (int_field (get_body req) ''customer_id'') (\<lambda>customer_id.
     andthen (int_field (get_body req) ''region_id'') (\<lambda>region_id.
       (case sql_insert SalesFact sale_id
               (sale_cols product_id sale_date quantity price customer_id region_id) db of
          Inl ex \<Rightarrow> (handle_db_error req ex, db)
        | Inr db' \<Rightarrow>
            (caught req
               (with_location (''/api/sales/'' @ str_of_int sale_id @ format_suffix req)
                  (api_response req
                     (sale_payload sale_id product_id sale_date quantity price customer_id region_id)
                     201 ''response'')), db'))) db) db) db) db) db) db) db"

definition get_sale :: "int \<Rightarrow> view" where
  "get_sale sale_id req db =
     (case sql_select_by_id SalesFact sale_id db of
        Inl e \<Rightarrow> (handle_db_error req e, db)
      | Inr None \<Rightarrow> (caught req (error_response req ''Sale not found'' 404 None), db)
      | Inr (Some r) \<Rightarrow>
          if r = [] then (caught req (error_response req ''Sale not found'' 404 None), db)
          else (caught req (api_response req (PDict (stringify ''sale_date'' r)) 200 ''response''), db))"

definition update_sale :: "env \<Rightarrow> int \<Rightarrow> view" where
  "update_sale e sale_id req db =
     andthen (int_field (get_body req) ''product_id'') (\<lambda>product_id.
     andthen (date_field (get_body req) ''sale_date'') (\<lambda>sale_date.
     andthen (int_field (get_body req) ''quantity'') (\<lambda>quantity.
     andthen (decimal_field e (get_body req) ''price'') (\<lambda>price.
     andthen (int_field (get_body req) ''customer_id'') (\<lambda>customer_id.
     andthen (int_field (get_body req) ''region_id'') (\<lambda>region_id.
       (case sql_update SalesFact sale_id
               (sale_cols product_id sale_date quantity price customer_id region_id) db of
          Inl ex \<Rightarrow> (handle_db_error req ex, db)
        | Inr (rowcount, db') \<Rightarrow>
            if rowcount = 0 then (caught req (error_response req ''Sale not found'' 404 None), db')
            else
              (caught req
                 (api_response req
                    (sale_payload sale_id product_id sale_date quantity price customer_id region_id)
                    200 ''response''), db'))) db) db) db) db) db) db"

definition delete_sale :: "int \<Rightarrow> view" where
  "delete_sale sale_id req db =
     (case sql_delete SalesFact sale_id db of
        Inl e \<Rightarrow> (handle_db_error req e, db)
      | Inr (rowcount, db') \<Rightarrow>
          if rowcount = 0 then (caught req (error_response req ''Sale not found'' 404 None), db')
          else
            (caught req
               (api_response req
                  (PDict [(''deleted'', PBool True), (''sale_id'', PInt sale_id)])
                  200 ''response''), db'))"

subsection \<open>Search\<close>

text \<open>
  Modelled from the spec: the view \<^verbatim>\<open>sales_denorm\<close> is part of the schema, which is not
  among the sources; the spec calls it a read-only, pre-joined projection of sales plus
  related dimension names. Its columns \<open>product_name\<close>, \<open>product_category\<close>,
  \<open>region\<close>, \<open>customer_id\<close>, \<open>sale_date\<close>, \<open>signup_date\<close> and \<open>sale_id\<close> are
  the ones the handler names.
\<close>

definition denorm_row :: "row \<Rightarrow> row \<Rightarrow> row \<Rightarrow> row \<Rightarrow> row \<Rightarrow> row" where
  "denorm_row s p c g u =
     [(''sale_id'', col s ''sale_id''), (''sale_date'', col s ''sale_date''),
      (''quantity'', col s ''quantity''), (''price'', col s ''price''),
      (''product_id'', col s ''product_id''), (''product_name'', col p ''product_name''),
      (''product_category'', col c ''category_name''),
      (''customer_id'', col s ''customer_id''), (''first_name'', col u ''first_name''),
      (''last_name'', col u ''last_name''), (''email'', col u ''email''),
      (''signup_date'', col u ''signup_date''),
      (''region_id'', col s ''region_id''), (''region'', col g ''region_name'')]"

definition sales_denorm :: "database \<Rightarrow> row list" where
  "sales_denorm db =
     concat (map (\<lambda>s.
       concat (map (\<lambda>p.
         concat (map (\<lambda>c.
           concat (map (\<lambda>g.
             map (\<lambda>u. denorm_row s p c g u)
               (filter (\<lambda>u. col u ''customer_id'' = col s ''customer_id'') (tables db Customers)))
             (filter (\<lambda>g. col g ''region_id'' = col s ''region_id'') (tables db Regions))))
           (filter (\<lambda>c. col c ''category_id'' = col p ''category_id'') (tables db Categories))))
         (filter (\<lambda>p. col p ''product_id'' = col s ''product_id'') (tables db Products))))
       (tables db SalesFact))"

text \<open>
  The engine's \<^verbatim>\<open>LIKE\<close>: \<^verbatim>\<open>%\<close> stands for any run of characters, \<^verbatim>\<open>_\<close> for any
  one character, a backslash takes the next character literally; letters compare
  without case, as the spec states for the search.
\<close>

fun like :: "string \<Rightarrow> string \<Rightarrow> bool" where
  "like [] [] = True"
| "like [] (c # cs) = False"
| "like (p # ps) [] = (p = CHR ''%'' \<and> like ps [])"
| "like (p # ps) (c # cs) =
     (if p = CHR ''%'' then like ps (c # cs) \<or> like (p # ps) cs
      else if p = CHR ''_'' then like ps cs
      else if p = CHR 0x5C then
        (case ps of
           [] \<Rightarrow> c = CHR 0x5C \<and> cs = []
         | q # qs \<Rightarrow> lower_char q = lower_char c \<and> like qs cs)
      else lower_char p = lower_char c \<and> like ps cs)"

definition date_le :: "pydate \<Rightarrow> pydate \<Rightarrow> bool" where
  "date_le a b =
     (year a < year b \<or> (year a = year b \<and>
       (month a < month b \<or> (month a = month b \<and> day a \<le> day b))))"

text \<open>One conjunct of the \<^verbatim>\<open>WHERE\<close> clause with its parameter, on one row of the view.\<close>

definition eval_clause :: "string \<times> pyval \<Rightarrow> row \<Rightarrow> bool" where
  "eval_clause cp r =
     (let c = takeWhile (\<lambda>x. x \<noteq> CHR '' '') (fst cp);
          oper = dropWhile (\<lambda>x. x \<noteq> CHR '' '') (fst cp)
      in case (snd cp, col r c) of
           (PStr pat, PStr s) \<Rightarrow> oper = '' LIKE %s'' \<and> like pat s
         | (PInt i, PInt j) \<Rightarrow> oper = '' = %s'' \<and> j = i
         | (PDate d, PDate d') \<Rightarrow>
             (oper = '' >= %s'' \<and> date_le d d') \<or> (oper = '' <= %s'' \<and> date_le d' d)
         | _ \<Rightarrow> False)"

text \<open>
  The statement as the engine reads it: the text, the conjuncts it was joined from and
  the parameters. The rows come sorted when the text ends in the \<^verbatim>\<open>ORDER BY\<close>.
\<close>

definition sql_search :: "string \<Rightarrow> string list \<Rightarrow> pyval list \<Rightarrow> database \<Rightarrow> exn + row list" where
  "sql_search sql wher params db =
     (case fault db of
        Some m \<Rightarrow> Inl (DbError m)
      | None \<Rightarrow>
          (let rows = filter (\<lambda>r. list_all (\<lambda>cp. eval_clause cp r) (zip wher params))
                        (sales_denorm db)
           in Inr (if suffix '' ORDER BY sale_id'' sql then sort_key (int_col ''sale_id'') rows
                   else rows)))"

fun join :: "string \<Rightarrow> string list \<Rightarrow> string" where
  "join sep [] = []"
| "join sep [x] = x"
| "join sep (x # y # ys) = x @ sep @ join sep (y # ys)"

text \<open>The filters are read in the handler's order; a filter is used when it is not empty.\<close>

definition given :: "request \<Rightarrow> string \<Rightarrow> string option" where
  "given req k = (case map_of (args req) k of None \<Rightarrow> None | Some v \<Rightarrow> if v = [] then None else Some v)"

definition add_like ::
  "request \<Rightarrow> string \<Rightarrow> string \<Rightarrow> string list \<times> pyval list \<Rightarrow> string list \<times> pyval list" where
  "add_like req k clause wp =
     (case given req k of
        None \<Rightarrow> wp
      | Some v \<Rightarrow> (fst wp @ [clause], snd wp @ [PStr (''%'' @ v @ ''%'')]))"

definition add_customer ::
  "request \<Rightarrow> string list \<times> pyval list \<Rightarrow> exn + string list \<times> pyval list" where
  "add_customer req wp =
     (case given req ''customer_id'' of
        None \<Rightarrow> Inr wp
      | Some v \<Rightarrow>
          (case parse_int (PStr v) ''customer_id'' (Some 1) of
             Inl e \<Rightarrow> Inl e
           | Inr i \<Rightarrow> Inr (fst wp @ [''customer_id = %s''], snd wp @ [PInt i])))"

definition add_date ::
  "request \<Rightarrow> string \<Rightarrow> string \<Rightarrow> string list \<times> pyval list \<Rightarrow> exn + string list \<times> pyval list" where
  "add_date req k clause wp =
     (case given req k of
        None \<Rightarrow> Inr wp
      | Some v \<Rightarrow>
          (case parse_date (PStr v) k of
             Inl e \<Rightarrow> Inl e
           | Inr d \<Rightarrow> Inr (fst wp @ [clause], snd wp @ [PDate d])))"

definition search_conditions :: "request \<Rightarrow> exn + string list \<times> pyval list" where
  "search_conditions req =
     (case add_customer req
             (add_like req ''region_name'' ''region LIKE %s''
               (add_like req ''category_name'' ''product_category LIKE %s''
                 (add_like req ''product_name'' ''product_name LIKE %s'' ([], [])))) of
        Inl e \<Rightarrow> Inl e
      | Inr wp \<Rightarrow>
          (case add_date req ''date_from'' ''sale_date >= %s'' wp of
             Inl e \<Rightarrow> Inl e
           | Inr wp' \<Rightarrow> add_date req ''date_to'' ''sale_date <= %s'' wp'))"

definition search_sql :: "string list \<Rightarrow> string" where
  "search_sql wher =
     ''SELECT * FROM sales_denorm'' @
     (if wher \<noteq> [] then '' WHERE '' @ join '' AND '' wher else []) @ '' ORDER BY sale_id''"

definition search_sales :: view where
  "search_sales req db =
     andthen (search_conditions req) (\<lambda>wp.
       (case sql_search (search_sql (fst wp)) (fst wp) (snd wp) db of
          Inl e \<Rightarrow> (handle_db_error req e, db)
        | Inr found \<Rightarrow>
            (let rows = map (stringify ''signup_date'' \<circ> stringify ''sale_date'') found
             in (caught req
                   (api_response req
                      (PDict [(''items'', PList (map PDict rows)), (''count'', PInt (int (length rows)))])
                      200 ''response''), db)))) db"

section \<open>Routes and the error translator\<close>

text \<open>
  The rules of \<^verbatim>\<open>create_app\<close>. An identifier in a path is read by the \<^verbatim>\<open>int\<close>
  converter, which takes digits only, so it is a natural number. \<open>NoRoute\<close> is a
  request that matches no rule: the framework raises \<^verbatim>\<open>NotFound\<close> for it.
\<close>

datatype route =
    Health | Login
  | ListCategories | CreateCategory | GetCategory nat | UpdateCategory nat | DeleteCategory nat
  | ListRegions | CreateRegion | GetRegion nat | UpdateRegion nat | DeleteRegion nat
  | ListCustomers | CreateCustomer | GetCustomer nat | UpdateCustomer nat | DeleteCustomer nat
  | ListProducts | CreateProduct | GetProduct nat | UpdateProduct nat | DeleteProduct nat
  | ListSales | CreateSale | GetSale nat | UpdateSale nat | DeleteSale nat
  | SearchSales
  | NoRoute

text \<open>The function behind a rule, before its decorators.\<close>

fun handler :: "env \<Rightarrow> route \<Rightarrow> view" where
  "handler e Health = health"
| "handler e Login = login e"
| "handler e ListCategories = list_categories"
| "handler e CreateCategory = create_category"
| "handler e (GetCategory i) = get_category (int i)"
| "handler e (UpdateCategory i) = update_category (int i)"
| "handler e (DeleteCategory i) = delete_category (int i)"
| "handler e ListRegions = list_regions"
| "handler e CreateRegion = create_region"
| "handler e (GetRegion i) = get_region (int i)"
| "handler e (UpdateRegion i) = update_region (int i)"
| "handler e (DeleteRegion i) = delete_region (int i)"
| "handler e ListCustomers = list_customers"
| "handler e CreateCustomer = create_customer"
| "handler e (GetCustomer i) = get_customer (int i)"
| "handler e (UpdateCustomer i) = update_customer (int i)"
| "handler e (DeleteCustomer i) = delete_customer (int i)"
| "handler e ListProducts = list_products"
| "handler e CreateProduct = create_product"
| "handler e (GetProduct i) = get_product (int i)"
| "handler e (UpdateProduct i) = update_product (int i)"
| "handler e (DeleteProduct i) = delete_product (int i)"
| "handler e ListSales = list_sales"
| "handler e CreateSale = create_sale e"
| "handler e (GetSale i) = get_sale (int i)"
| "handler e (UpdateSale i) = update_sale e (int i)"
| "handler e (DeleteSale i) = delete_sale (int i)"
| "handler e SearchSales = search_sales"
| "handler e NoRoute = (\<lambda>req db. (Inl NotFound, db))"

text \<open>The routes decorated with \<^verbatim>\<open>@require_jwt\<close>: all but health, login and no route.\<close>

fun protected :: "route \<Rightarrow> bool" where
  "protected Health = False"
| "protected Login = False"
| "protected NoRoute = False"
| "protected _ = True"

definition view_function :: "env \<Rightarrow> route \<Rightarrow> view" where
  "view_function e r = (if protected r then require_jwt e (handler e r) else handler e r)"

text \<open>The three registered error handlers.\<close>

definition bad_request :: "request \<Rightarrow> string \<Rightarrow> exn + response" where
  "bad_request req description =
     error_response req (if description = [] then ''Bad request'' else description) 400 None"

definition not_found :: "request \<Rightarrow> exn + response" where
  "not_found req = error_response req ''Not found'' 404 None"

definition unhandled :: "request \<Rightarrow> exn + response" where
  "unhandled req = error_response req ''Internal server error'' 500 None"

text \<open>
  Flask's dispatch, as far as the application's outcome depends on it. An exception of
  a view goes to the handler registered for its class; an exception raised by that
  handler leaves \<^verbatim>\<open>full_dispatch_request\<close>. The application then either re-raises it
  (when exceptions propagate: debug or testing) or calls the handler found for an
  internal server error, here \<open>unhandled\<close>, whose own exception leaves the
  application. \<open>Escaped\<close> is that end: no response of the application; what the client
  then receives is the server's affair.
\<close>

definition handle_user_exception :: "request \<Rightarrow> exn \<Rightarrow> exn + response" where
  "handle_user_exception req ex =
     (case ex of
        BadRequest d \<Rightarrow> bad_request req d
      | NotFound \<Rightarrow> not_found req
      | _ \<Rightarrow> unhandled req)"

definition full_dispatch_request :: "env \<Rightarrow> route \<Rightarrow> view" where
  "full_dispatch_request e r req db =
     (case view_function e r req db of
        (Inr resp, db') \<Rightarrow> (Inr resp, db')
      | (Inl ex, db') \<Rightarrow> (handle_user_exception req ex, db'))"

datatype outcome = Reply response | Escaped exn

definition handle_exception :: "env \<Rightarrow> request \<Rightarrow> exn \<Rightarrow> outcome" where
  "handle_exception e req ex =
     (if propagate_exceptions e then Escaped ex
      else (case unhandled req of Inr resp \<Rightarrow> Reply resp | Inl ex' \<Rightarrow> Escaped ex'))"

definition wsgi_app :: "env \<Rightarrow> route \<Rightarrow> request \<Rightarrow> database \<Rightarrow> outcome \<times> database" where
  "wsgi_app e r req db =
     (case full_dispatch_request e r req db of
        (Inr resp, db') \<Rightarrow> (Reply resp, db')
      | (Inl ex, db') \<Rightarrow> (handle_exception e req ex, db'))"

text \<open>What a reply says: its error message, when the body is an error envelope.\<close>

definition payload_of :: "response \<Rightarrow> pyval" where
  "payload_of resp = (case body resp of JsonBody p \<Rightarrow> p | XmlBody _ p \<Rightarrow> p)"

definition error_of :: "response \<Rightarrow> string option" where
  "error_of resp =
     (case payload_of resp of
        PDict kvs \<Rightarrow> (case map_of kvs ''error'' of Some (PStr m) \<Rightarrow> Some m | _ \<Rightarrow> None)
      | _ \<Rightarrow> None)"

definition is_reply :: "outcome \<Rightarrow> int \<Rightarrow> bool" where
  "is_reply out st = (case out of Reply resp \<Rightarrow> status resp = st | Escaped _ \<Rightarrow> False)"

section \<open>Sample data\<close>

text \<open>
  An environment, a database and requests on which the properties below are run. The
  token \<open>good\<close> verifies, \<open>old\<close> has expired, any other is invalid.
\<close>

definition example_env :: env where
  "example_env = \<lparr>jwt_decode = (\<lambda>token secret.
       if token = ''good'' then Decoded
       else if token = ''old'' then ExpiredSignatureError else InvalidTokenError),
     jwt_encode = (\<lambda>sub secret. ''good''),
     py_float = (\<lambda>v. case v of PFloat x \<Rightarrow> Inr x | PInt i \<Rightarrow> Inr (Finite (of_int i))
                        | _ \<Rightarrow> Inl TypeError),
     JWT_SECRET_KEY = ''your_jwt_secret_key'', API_USERNAME = ''admin'',
     API_PASSWORD = ''password'', propagate_exceptions = False\<rparr>"

definition example_db :: database where
  "example_db = \<lparr>tables = (\<lambda>t. []), auto_increment = (\<lambda>t. 1), fault = None\<rparr>"

definition sale_request :: "pyval \<Rightarrow> request" where
  "sale_request quantity = \<lparr>args = [], authorization = Some ''Bearer good'',
     json = PDict [(''sale_id'', PInt 1), (''product_id'', PInt 1),
                   (''sale_date'', PStr ''2023-02-01''), (''quantity'', quantity),
                   (''price'', PFloat (Finite (1999 / 100))), (''customer_id'', PInt 1),
                   (''region_id'', PInt 1)]\<rparr>"

definition format_request :: "string \<Rightarrow> request" where
  "format_request v = \<lparr>args = [(''format'', v)], authorization = None, json = PNone\<rparr>"

definition auth_request :: "string option \<Rightarrow> request" where
  "auth_request a = \<lparr>args = [], authorization = a, json = PNone\<rparr>"

definition xml_request :: request where
  "xml_request = \<lparr>args = [(''customer_id'', ''42''), (''format'', ''xml'')],
     authorization = Some ''Bearer bad'', json = PDict [(''category_name'', PStr ''Tools'')]\<rparr>"





definition shop_rows :: "table \<Rightarrow> row list" where
  "shop_rows t =
     (case t of
        Categories \<Rightarrow>
          [[(''category_id'', PInt 1), (''category_name'', PStr ''Tools'')],
           [(''category_id'', PInt 2), (''category_name'', PStr ''Toys'')]]
      | Regions \<Rightarrow>
          [[(''region_id'', PInt 1), (''region_name'', PStr ''North'')],
           [(''region_id'', PInt 2), (''region_name'', PStr ''South'')]]
      | Customers \<Rightarrow>
          [[(''customer_id'', PInt 42), (''first_name'', PStr ''Ada''),
            (''last_name'', PStr ''Lovelace''), (''email'', PStr ''ada@example.com''),
            (''signup_date'', PDate \<lparr>year = 2023, month = 1, day = 1\<rparr>)],
           [(''customer_id'', PInt 7), (''first_name'', PStr ''Alan''),
            (''last_name'', PStr ''Turing''), (''email'', PStr ''alan@example.com''),
            (''signup_date'', PDate \<lparr>year = 2022, month = 6, day = 23\<rparr>)]]
      | Products \<Rightarrow>
          [[(''product_id'', PInt 1), (''product_name'', PStr ''Hammer''), (''category_id'', PInt 1)],
           [(''product_id'', PInt 2), (''product_name'', PStr ''Robot''), (''category_id'', PInt 2)]]
      | SalesFact \<Rightarrow>
          [[(''sale_id'', PInt 3), (''product_id'', PInt 2),
            (''sale_date'', PDate \<lparr>year = 2023, month = 2, day = 5\<rparr>), (''quantity'', PInt 1),
            (''price'', PFloat (Finite 10)), (''customer_id'', PInt 42), (''region_id'', PInt 1)],
           [(''sale_id'', PInt 1), (''product_id'', PInt 1),
            (''sale_date'', PDate \<lparr>year = 2023, month = 2, day = 1\<rparr>), (''quantity'', PInt 2),
            (''price'', PFloat (Finite 20)), (''customer_id'', PInt 42), (''region_id'', PInt 2)],
           [(''sale_id'', PInt 2), (''product_id'', PInt 1),
            (''sale_date'', PDate \<lparr>year = 2023, month = 3, day = 1\<rparr>), (''quantity'', PInt 1),
            (''price'', PFloat (Finite 20)), (''customer_id'', PInt 7), (''region_id'', PInt 1)]])"

definition shop_db :: database where
  "shop_db = \<lparr>tables = shop_rows, auto_increment = (\<lambda>t. 3), fault = None\<rparr>"

definition search_request :: "(string \<times> string) list \<Rightarrow> request" where
  "search_request filters = \<lparr>args = filters, authorization = Some ''Bearer good'', json = PNone\<rparr>"

section \<open>Notions of the specification\<close>

text \<open>
  A request carries a valid bearer token when its \<^verbatim>\<open>Authorization\<close> header is
  \<^verbatim>\<open>Bearer\<close>, one space and a token that the verifier accepts.
\<close>

definition authorized :: "env \<Rightarrow> request \<Rightarrow> bool" where
  "authorized e req =
     (case authorization req of
        None \<Rightarrow> False
      | Some h \<Rightarrow> prefix ''Bearer '' h \<and> jwt_decode e (strip (drop 7 h)) (JWT_SECRET_KEY e) = Decoded)"

text \<open>A response is in format \<open>f\<close>: its body and its content type are those of \<open>f\<close>.\<close>

definition encoded_as :: "string \<Rightarrow> response \<Rightarrow> bool" where
  "encoded_as f resp =
     (case body resp of
        JsonBody _ \<Rightarrow> f = ''json'' \<and> content_type resp = ''application/json''
      | XmlBody _ _ \<Rightarrow> f = ''xml'' \<and> content_type resp = ''application/xml; charset=utf-8'')"


text \<open>A handler's result that refuses the request before storage is reached.\<close>

definition rejected :: "exn + response \<Rightarrow> bool" where
  "rejected x = (case x of Inl ex \<Rightarrow> True | Inr resp \<Rightarrow> status resp = 400)"

text \<open>
  The outcome of a write handler on a database whose storage fails with message
  \<open>msg\<close>: the database is as before, and the result is the handler's answer to that
  storage failure unless the request was refused before storage.
\<close>

definition faulted :: "request \<Rightarrow> database \<Rightarrow> string \<Rightarrow> (exn + response) \<times> database \<Rightarrow> bool" where
  "faulted req db msg x =
     (snd x = db \<and> (fst x = handle_db_error req (DbError msg) \<or> rejected (fst x)))"

text \<open>The delete operation of a resource, by its table.\<close>

fun delete_route :: "table \<Rightarrow> nat \<Rightarrow> route" where
  "delete_route Categories i = DeleteCategory i"
| "delete_route Regions i = DeleteRegion i"
| "delete_route Customers i = DeleteCustomer i"
| "delete_route Products i = DeleteProduct i"
| "delete_route SalesFact i = DeleteSale i"

text \<open>A row with key \<open>i\<close> is in table \<open>t\<close>.\<close>

definition present :: "database \<Rightarrow> table \<Rightarrow> nat \<Rightarrow> bool" where
  "present db t i = list_ex (has_id t (int i)) (tables db t)"




text \<open>
  The search as the specification words it. The filters that a request supplies, in the
  handler's order; the condition that they put on a row of the view, one conjunct for
  each; a filter value without a wildcard of \<^verbatim>\<open>LIKE\<close>.
\<close>

definition supplied :: "request \<Rightarrow> string list" where
  "supplied req =
     filter (\<lambda>k. given req k \<noteq> None)
       [''product_name'', ''category_name'', ''region_name'', ''customer_id'', ''date_from'',
        ''date_to'']"

definition like_filter :: "string option \<Rightarrow> pyval \<Rightarrow> bool" where
  "like_filter a c =
     (case a of
        None \<Rightarrow> True
      | Some v \<Rightarrow> (case c of PStr s \<Rightarrow> like (''%'' @ v @ ''%'') s | _ \<Rightarrow> False))"

definition customer_filter :: "string option \<Rightarrow> pyval \<Rightarrow> bool" where
  "customer_filter a c =
     (case a of
        None \<Rightarrow> True
      | Some v \<Rightarrow> (case int_of_str v of Some i \<Rightarrow> c = PInt i | None \<Rightarrow> False))"

definition from_filter :: "string option \<Rightarrow> pyval \<Rightarrow> bool" where
  "from_filter a c =
     (case a of
        None \<Rightarrow> True
      | Some v \<Rightarrow>
          (case fromisoformat v of
             Some d \<Rightarrow> (case c of PDate d' \<Rightarrow> date_le d d' | _ \<Rightarrow> False)
           | None \<Rightarrow> False))"

definition to_filter :: "string option \<Rightarrow> pyval \<Rightarrow> bool" where
  "to_filter a c =
     (case a of
        None \<Rightarrow> True
      | Some v \<Rightarrow>
          (case fromisoformat v of
             Some d \<Rightarrow> (case c of PDate d' \<Rightarrow> date_le d' d | _ \<Rightarrow> False)
           | None \<Rightarrow> False))"

definition search_matches :: "request \<Rightarrow> row \<Rightarrow> bool" where
  "search_matches req r =
     (like_filter (given req ''product_name'') (col r ''product_name'') \<and>
      like_filter (given req ''category_name'') (col r ''product_category'') \<and>
      like_filter (given req ''region_name'') (col r ''region'') \<and>
      customer_filter (given req ''customer_id'') (col r ''customer_id'') \<and>
      from_filter (given req ''date_from'') (col r ''sale_date'') \<and>
      to_filter (given req ''date_to'') (col r ''sale_date''))"

definition wildcard_free :: "string \<Rightarrow> bool" where
  "wildcard_free v = list_all (\<lambda>c. c \<noteq> CHR ''%'' \<and> c \<noteq> CHR ''_'' \<and> c \<noteq> CHR 0x5C) v"

text \<open>The items of a search reply, as printed, and what the reply says of them.\<close>

definition printed :: "row list \<Rightarrow> pyval list" where
  "printed found = map (PDict \<circ> (stringify ''signup_date'' \<circ> stringify ''sale_date'')) found"

definition reply_count :: "outcome \<Rightarrow> pyval" where
  "reply_count out =
     (case out of
        Reply resp \<Rightarrow> (case payload_of resp of PDict kvs \<Rightarrow> col kvs ''count'' | _ \<Rightarrow> PNone)
      | Escaped _ \<Rightarrow> PNone)"

definition reply_ids :: "outcome \<Rightarrow> pyval list" where
  "reply_ids out =
     (case out of
        Reply resp \<Rightarrow>
          (case payload_of resp of
             PDict kvs \<Rightarrow>
               (case col kvs ''items'' of
                  PList items \<Rightarrow>
                    map (\<lambda>item. case item of PDict r \<Rightarrow> col r ''sale_id'' | _ \<Rightarrow> PNone) items
                | _ \<Rightarrow> [])
           | _ \<Rightarrow> [])
      | Escaped _ \<Rightarrow> [])"

text \<open>The conjuncts of a statement hold on a row; each conjunct has its parameter.\<close>

definition holds :: "string list \<times> pyval list \<Rightarrow> row \<Rightarrow> bool" where
  "holds wp r = list_all (\<lambda>cp. eval_clause cp r) (zip (fst wp) (snd wp))"

definition paired :: "string list \<times> pyval list \<Rightarrow> bool" where
  "paired wp = (length (fst wp) = length (snd wp))"

section \<open>The integer parser\<close>

lemma trunc_toward_zero:
  assumes "q \<notin> \<int>"
  shows "\<bar>of_int (trunc q)\<bar> < \<bar>q\<bar> \<and> \<bar>q\<bar> < \<bar>of_int (trunc q)\<bar> + 1 \<and> 0 \<le> of_int (trunc q) * q"
proof (cases "0 \<le> q")
  case True
  then have t: "trunc q = \<lfloor>q\<rfloor>" by (simp add: trunc_def)
  have nn: "0 \<le> \<lfloor>q\<rfloor>" using True by simp
  have "of_int \<lfloor>q\<rfloor> \<noteq> q" using assms by (metis Ints_of_int)
  then have lt: "of_int \<lfloor>q\<rfloor> < q" using of_int_floor_le [of q] by linarith
  have ub: "q < of_int \<lfloor>q\<rfloor> + 1" by linarith
  have "0 \<le> (of_int \<lfloor>q\<rfloor> :: rat)" using nn by simp
  then show ?thesis using t True lt ub by (simp add: abs_if)
next
  case False
  then have t: "trunc q = \<lceil>q\<rceil>" by (simp add: trunc_def)
  have np: "\<lceil>q\<rceil> \<le> 0" using False by (simp add: ceiling_le_iff)
  have "of_int \<lceil>q\<rceil> \<noteq> q" using assms by (metis Ints_of_int)
  then have gt: "q < of_int \<lceil>q\<rceil>" using le_of_int_ceiling [of q] by linarith
  have lb: "of_int \<lceil>q\<rceil> < q + 1" by linarith
  have le0: "(of_int \<lceil>q\<rceil> :: rat) \<le> 0" using np by simp
  have m: "0 \<le> of_int \<lceil>q\<rceil> * q" using le0 False by (simp add: mult_nonpos_nonpos)
  have a1: "\<bar>q\<bar> = - q" using False by simp
  have a2: "\<bar>of_int \<lceil>q\<rceil> :: rat\<bar> = - of_int \<lceil>q\<rceil>" using le0 by simp
  have "\<bar>of_int \<lceil>q\<rceil>\<bar> < \<bar>q\<bar>" unfolding a1 a2 using gt by linarith
  moreover have "\<bar>q\<bar> < \<bar>of_int \<lceil>q\<rceil>\<bar> + 1" unfolding a1 a2 using lb by linarith
  ultimately show ?thesis using m unfolding t by blast
qed

text \<open>
  C10. A float that is not a whole number is not refused for that: \<^verbatim>\<open>_parse_int\<close>
  returns it cut toward zero (the integer strictly nearer to zero, less than one away,
  of the same sign) whenever that integer is at least the minimum, if there is one.
\<close>

theorem parse_int_truncates:
  assumes "q \<notin> \<int>" and "\<forall>k. m = Some k \<longrightarrow> k \<le> trunc q"
  shows "parse_int (PFloat (Finite q)) f m = Inr (trunc q) \<and>
         \<bar>of_int (trunc q)\<bar> < \<bar>q\<bar> \<and> \<bar>q\<bar> < \<bar>of_int (trunc q)\<bar> + 1 \<and> 0 \<le> of_int (trunc q) * q"
  using assms trunc_toward_zero [of q] by (auto simp: parse_int_def split: option.splits)

lemma not_whole_19_10: "(19 / 10 :: rat) \<notin> \<int>"
  using of_int_floor_cancel [of "19 / 10 :: rat"] by simp

lemma trunc_19_10: "trunc (19 / 10) = 1"
  by code_simp

theorem parse_int_truncates_witness:
  "(19 / 10 :: rat) \<notin> \<int> \<and> parse_int (PFloat (Finite (19 / 10))) ''quantity'' (Some 1) = Inr 1"
  using parse_int_truncates [of "19 / 10" "Some 1" "''quantity''"] not_whole_19_10 trunc_19_10
  by simp

text \<open>
  C6. The claim has \<^verbatim>\<open>_parse_int\<close> fail with a bad-input error on every value that
  is not convertible to a whole number. An infinite float (the JSON number
  \<^verbatim>\<open>1e999\<close>) is not convertible, but \<^verbatim>\<open>int\<close> raises \<^verbatim>\<open>OverflowError\<close> for it,
  which the \<^verbatim>\<open>except\<close> clause does not name: the exception leaves the parser and the
  sales create handler, and the reply is 500, not 400.
\<close>

theorem create_sale_infinite_quantity:
  "parse_int (PFloat PosInf) ''quantity'' (Some 1) = Inl OverflowError \<and>
   is_reply (fst (wsgi_app example_env CreateSale (sale_request (PFloat PosInf)) example_db)) 500"
  by code_simp

section \<open>Format selection\<close>

text \<open>
  C9. The \<^verbatim>\<open>format\<close> parameter is stripped and lowercased before it is compared
  with \<^verbatim>\<open>json\<close> and \<^verbatim>\<open>xml\<close>: the format is accepted exactly when its stripped,
  lowercased value (\<^verbatim>\<open>json\<close> when absent or empty) is one of the two, and that value
  is the result; so \<^verbatim>\<open>XML\<close>, \<^verbatim>\<open>Json\<close> and \<^verbatim>\<open> json \<close> are accepted.
\<close>

theorem get_format_normalises:
  "(get_format req = Inr f) =
     ((f = ''json'' \<or> f = ''xml'') \<and>
      f = lower (strip (case map_of (args req) ''format'' of
                          None \<Rightarrow> ''json'' | Some v \<Rightarrow> if v = [] then ''json'' else v))) \<and>
   get_format (format_request ''XML'') = Inr ''xml'' \<and>
   get_format (format_request ''Json'') = Inr ''json'' \<and>
   get_format (format_request '' json '') = Inr ''json''"
proof -
  have "get_format (format_request ''XML'') = Inr ''xml''" by code_simp
  moreover have "get_format (format_request ''Json'') = Inr ''json''" by code_simp
  moreover have "get_format (format_request '' json '') = Inr ''json''" by code_simp
  moreover have "(get_format req = Inr f) =
     ((f = ''json'' \<or> f = ''xml'') \<and>
      f = lower (strip (case map_of (args req) ''format'' of
                          None \<Rightarrow> ''json'' | Some v \<Rightarrow> if v = [] then ''json'' else v)))"
    by (auto simp: get_format_def Let_def)
  ultimately show ?thesis by blast
qed

section \<open>The date parser\<close>















section \<open>The auth gate and the response encoder\<close>


lemma api_response_legal:
  "get_format req = Inr f \<Longrightarrow> api_response req p st rt = Inr resp \<Longrightarrow>
   status resp = st \<and> payload_of resp = p \<and> encoded_as f resp \<and> location resp = None"
  by (auto simp: api_response_def payload_of_def encoded_as_def get_format_def Let_def split: if_splits)

lemma api_response_total:
  "get_format req = Inr f \<Longrightarrow> \<exists>resp. api_response req p st rt = Inr resp"
  by (simp add: api_response_def)

lemma error_response_legal:
  "get_format req = Inr f \<Longrightarrow>
   \<exists>resp. error_response req m st None = Inr resp \<and> status resp = st \<and> error_of resp = Some m \<and>
     encoded_as f resp"
  by (auto simp: error_response_def api_response_def payload_of_def error_of_def encoded_as_def
        get_format_def Let_def split: if_splits)

lemma bearer_token:
  "prefix ''Bearer '' h \<Longrightarrow> drop 1 (dropWhile (\<lambda>c. c \<noteq> CHR '' '') h) = drop 7 h"
  by (auto simp: prefix_def)








lemma require_jwt_unauthorized:
  assumes "\<not> authorized e req"
  shows "\<exists>m. require_jwt e fn req db = (error_response req m 401 None, db)"
proof (cases "\<exists>h. authorization req = Some h \<and> prefix ''Bearer '' h")
  case False
  then have "\<not> prefix ''Bearer '' (case authorization req of None \<Rightarrow> [] | Some h \<Rightarrow> h)"
    by (cases "authorization req") auto
  then show ?thesis by (auto simp: require_jwt_def Let_def)
next
  case True
  then obtain h where h: "authorization req = Some h" "prefix ''Bearer '' h" by blast
  then have t: "drop 1 (dropWhile (\<lambda>c. c \<noteq> CHR '' '') h) = drop 7 h" using bearer_token by blast
  have "jwt_decode e (strip (drop 7 h)) (JWT_SECRET_KEY e) \<noteq> Decoded"
    using assms h by (simp add: authorized_def)
  then show ?thesis using h t
    by (cases "jwt_decode e (strip (drop 7 h)) (JWT_SECRET_KEY e)")
       (auto simp: require_jwt_def Let_def)
qed

text \<open>
  C1, as stated, fails: a request to a protected route without a token that also carries
  an unsupported \<^verbatim>\<open>format\<close> gets no 401. The gate builds its 401 with the response
  encoder, which raises the bad-input error for the format.
\<close>

theorem unauthorized_bad_format_counterexample:
  "protected ListCategories \<and> \<not> authorized example_env (format_request ''yaml'') \<and>
   fst (wsgi_app example_env ListCategories (format_request ''yaml'') example_db) =
     Escaped (BadRequest format_error)"
  by code_simp

text \<open>
  C1, amended. On every protected route, a request whose \<^verbatim>\<open>format\<close> is legal and
  that carries no valid bearer token is answered with status 401, in the requested
  format, whatever its body and its other query parameters are; the database is left
  as it was.
\<close>

theorem unauthorized_401:
  assumes "protected r" and "\<not> authorized e req" and "get_format req = Inr f"
  shows "\<exists>resp. wsgi_app e r req db = (Reply resp, db) \<and> status resp = 401 \<and> encoded_as f resp"
proof -
  obtain m where m: "require_jwt e (handler e r) req db = (error_response req m 401 None, db)"
    using require_jwt_unauthorized [OF assms(2), of "handler e r" db] by blast
  obtain resp where resp: "error_response req m 401 None = Inr resp" "status resp = 401"
      "encoded_as f resp"
    using error_response_legal [OF assms(3)] by blast
  have "wsgi_app e r req db = (Reply resp, db)"
    using assms(1) m resp(1) by (simp add: wsgi_app_def full_dispatch_request_def view_function_def)
  then show ?thesis using resp by blast
qed

lemma xml_request_facts:
  "protected (DeleteSale 7)" "\<not> authorized example_env xml_request"
  "get_format xml_request = Inr ''xml''"
  by code_simp+

theorem unauthorized_401_witness:
  "protected (DeleteSale 7) \<and> \<not> authorized example_env xml_request \<and>
   get_format xml_request = Inr ''xml'' \<and>
   (\<exists>resp. wsgi_app example_env (DeleteSale 7) xml_request example_db = (Reply resp, example_db) \<and>
      status resp = 401 \<and> encoded_as ''xml'' resp)"
  using unauthorized_401 [OF xml_request_facts, of example_db] xml_request_facts by blast

section \<open>Storage failures\<close>




lemma faulted_Inl: "faulted req db msg (Inl ex, db)"
  by (simp add: faulted_def rejected_def)











section \<open>Delete\<close>

lemma require_jwt_authorized:
  assumes "authorized e req"
  shows "require_jwt e fn req db = fn req db"
proof -
  obtain h where h: "authorization req = Some h" "prefix ''Bearer '' h"
      "jwt_decode e (strip (drop 7 h)) (JWT_SECRET_KEY e) = Decoded"
    using assms by (auto simp: authorized_def split: option.splits)
  then have "drop 1 (dropWhile (\<lambda>c. c \<noteq> CHR '' '') h) = drop 7 h" using bearer_token by blast
  then show ?thesis using h by (simp add: require_jwt_def Let_def)
qed

lemma wsgi_app_reply:
  "view_function e r req db = (Inr resp, db') \<Longrightarrow> wsgi_app e r req db = (Reply resp, db')"
  by (simp add: wsgi_app_def full_dispatch_request_def)

lemma no_rows_filter: "\<not> list_ex P xs \<Longrightarrow> filter (\<lambda>r. \<not> P r) xs = xs \<and> length (filter P xs) = 0"
  by (induction xs) auto

lemma some_rows_filter: "list_ex P xs \<Longrightarrow> 0 < length (filter P xs)"
  by (induction xs) auto

lemma filter_gone: "\<not> list_ex P (filter (\<lambda>r. \<not> P r) xs)"
  by (induction xs) auto

lemma sql_delete_absent:
  assumes "fault db = None" and "\<not> present db t i"
  shows "sql_delete t (int i) db = Inr (0, db)"
proof -
  have "filter (\<lambda>r. \<not> has_id t (int i) r) (tables db t) = tables db t"
    and "length (filter (has_id t (int i)) (tables db t)) = 0"
    using assms(2) no_rows_filter [of "has_id t (int i)" "tables db t"] by (simp_all add: present_def)
  then show ?thesis using assms(1) by (simp add: sql_delete_def)
qed

lemma sql_delete_present:
  assumes "fault db = None" and "present db t i"
  shows "\<exists>n db'. sql_delete t (int i) db = Inr (n, db') \<and> 0 < n \<and> \<not> present db' t i \<and>
     fault db' = None \<and> tables db' t = filter (\<lambda>r. \<not> has_id t (int i) r) (tables db t) \<and>
     (\<forall>t'. t' \<noteq> t \<longrightarrow> tables db' t' = tables db t')"
  using assms some_rows_filter [of "has_id t (int i)" "tables db t"]
    filter_gone [of "has_id t (int i)" "tables db t"]
  by (simp add: sql_delete_def present_def)

lemma delete_handler_absent:
  assumes "get_format req = Inr f" and "sql_delete t (int i) db = Inr (0, db)"
  shows "\<exists>resp. handler e (delete_route t i) req db = (Inr resp, db) \<and> status resp = 404"
proof -
  have "\<exists>resp. caught req (error_response req m 404 None) = Inr resp \<and> status resp = 404" for m
    using error_response_legal [OF assms(1), of m 404] by (auto simp: caught_def)
  then show ?thesis using assms(2)
    by (cases t)
       (simp_all add: delete_category_def delete_region_def delete_customer_def
          delete_product_def delete_sale_def)
qed

lemma delete_handler_present:
  assumes "get_format req = Inr f" and "sql_delete t (int i) db = Inr (n, db')" and "0 < n"
  shows "\<exists>resp. handler e (delete_route t i) req db = (Inr resp, db') \<and> status resp = 200 \<and>
     payload_of resp = PDict [(''deleted'', PBool True), (pk t, PInt (int i))]"
proof -
  have "\<exists>resp. caught req (api_response req p 200 ''response'') = Inr resp \<and>
      status resp = 200 \<and> payload_of resp = p" for p
    using api_response_total [OF assms(1), of p 200 "''response''"]
      api_response_legal [OF assms(1), of p 200 "''response''"]
    by (auto simp: caught_def)
  then show ?thesis using assms(2,3)
    by (cases t)
       (simp_all add: delete_category_def delete_region_def delete_customer_def
          delete_product_def delete_sale_def)
qed

text \<open>
  C8. Delete, for each of the five resources and every identifier, on a request with a
  valid token and a legal format and a storage that does not fail. When no row has the
  identifier, the answer is 404 and the database is unchanged, so every further call
  answers 404 again. When a row has it, the answer is 200 with the payload
  \<^verbatim>\<open>deleted: true\<close> and the identifier under the resource's key name; the rows with
  that identifier are gone, the other rows and the other tables are as before; and
  the same delete repeated at once answers 404.
\<close>

theorem delete_once:
  assumes "fault db = None" and "get_format req = Inr f" and "authorized e req"
  shows "(\<not> present db t i \<longrightarrow>
            (\<exists>resp. wsgi_app e (delete_route t i) req db = (Reply resp, db) \<and>
               status resp = 404)) \<and>
         (present db t i \<longrightarrow>
            (\<exists>resp db'. wsgi_app e (delete_route t i) req db = (Reply resp, db') \<and>
               status resp = 200 \<and>
               payload_of resp = PDict [(''deleted'', PBool True), (pk t, PInt (int i))] \<and>
               \<not> present db' t i \<and>
               tables db' t = filter (\<lambda>r. \<not> has_id t (int i) r) (tables db t) \<and>
               (\<forall>t'. t' \<noteq> t \<longrightarrow> tables db' t' = tables db t') \<and>
               (\<exists>resp'. wsgi_app e (delete_route t i) req db' = (Reply resp', db') \<and>
                  status resp' = 404)))"
proof -
  have prot: "protected (delete_route t i)" by (cases t) simp_all
  have absent: "\<exists>resp. wsgi_app e (delete_route t i) req d = (Reply resp, d) \<and> status resp = 404"
    if fd: "fault d = None" and np: "\<not> present d t i" for d
  proof -
    obtain resp where "handler e (delete_route t i) req d = (Inr resp, d)" "status resp = 404"
      using delete_handler_absent [OF assms(2) sql_delete_absent [OF fd np]] by blast
    then have "view_function e (delete_route t i) req d = (Inr resp, d)"
      using prot by (simp add: view_function_def require_jwt_authorized [OF assms(3)])
    then show ?thesis using wsgi_app_reply \<open>status resp = 404\<close> by blast
  qed
  show ?thesis
  proof (intro conjI impI)
    assume "\<not> present db t i"
    then show "\<exists>resp. wsgi_app e (delete_route t i) req db = (Reply resp, db) \<and> status resp = 404"
      using absent [OF assms(1)] by blast
  next
    assume "present db t i"
    then obtain n db' where d: "sql_delete t (int i) db = Inr (n, db')" "0 < n"
        "\<not> present db' t i" "fault db' = None"
        "tables db' t = filter (\<lambda>r. \<not> has_id t (int i) r) (tables db t)"
        "\<forall>t'. t' \<noteq> t \<longrightarrow> tables db' t' = tables db t'"
      using sql_delete_present [OF assms(1)] by blast
    obtain resp where r: "handler e (delete_route t i) req db = (Inr resp, db')"
        "status resp = 200"
        "payload_of resp = PDict [(''deleted'', PBool True), (pk t, PInt (int i))]"
      using delete_handler_present [OF assms(2) d(1,2)] by blast
    have "view_function e (delete_route t i) req db = (Inr resp, db')"
      using prot r(1) by (simp add: view_function_def require_jwt_authorized [OF assms(3)])
    then have w: "wsgi_app e (delete_route t i) req db = (Reply resp, db')"
      by (rule wsgi_app_reply)
    show "\<exists>resp db'. wsgi_app e (delete_route t i) req db = (Reply resp, db') \<and>
               status resp = 200 \<and>
               payload_of resp = PDict [(''deleted'', PBool True), (pk t, PInt (int i))] \<and>
               \<not> present db' t i \<and>
               tables db' t = filter (\<lambda>r. \<not> has_id t (int i) r) (tables db t) \<and>
               (\<forall>t'. t' \<noteq> t \<longrightarrow> tables db' t' = tables db t') \<and>
               (\<exists>resp'. wsgi_app e (delete_route t i) req db' = (Reply resp', db') \<and>
                  status resp' = 404)"
      using w r(2,3) d(3,5,6) absent [OF d(4) d(3)] by blast
  qed
qed

lemma shop_facts:
  "fault shop_db = None" "get_format (auth_request (Some ''Bearer good'')) = Inr ''json''"
  "authorized example_env (auth_request (Some ''Bearer good''))"
  by code_simp+

lemma shop_sales: "present shop_db SalesFact 1" "\<not> present shop_db SalesFact 9"
  by code_simp+

theorem delete_once_witness:
  "fault shop_db = None \<and> get_format (auth_request (Some ''Bearer good'')) = Inr ''json'' \<and>
   authorized example_env (auth_request (Some ''Bearer good'')) \<and>
   \<not> present shop_db SalesFact 9 \<and>
   (\<exists>resp. wsgi_app example_env (DeleteSale 9) (auth_request (Some ''Bearer good'')) shop_db =
      (Reply resp, shop_db) \<and> status resp = 404) \<and>
   present shop_db SalesFact 1 \<and>
   (\<exists>resp db'. wsgi_app example_env (DeleteSale 1) (auth_request (Some ''Bearer good'')) shop_db =
      (Reply resp, db') \<and> status resp = 200 \<and>
      payload_of resp = PDict [(''deleted'', PBool True), (''sale_id'', PInt 1)] \<and>
      \<not> present db' SalesFact 1 \<and>
      (\<exists>resp'. wsgi_app example_env (DeleteSale 1) (auth_request (Some ''Bearer good'')) db' =
         (Reply resp', db') \<and> status resp' = 404))"
proof -
  note t9 = delete_once [OF shop_facts, of SalesFact 9]
  note t1 = delete_once [OF shop_facts, of SalesFact 1]
  have a: "\<exists>resp. wsgi_app example_env (DeleteSale 9) (auth_request (Some ''Bearer good'')) shop_db =
      (Reply resp, shop_db) \<and> status resp = 404"
    using t9 shop_sales(2) by simp
  have b: "\<exists>resp db'. wsgi_app example_env (DeleteSale 1) (auth_request (Some ''Bearer good'')) shop_db =
      (Reply resp, db') \<and> status resp = 200 \<and>
      payload_of resp = PDict [(''deleted'', PBool True), (''sale_id'', PInt 1)] \<and>
      \<not> present db' SalesFact 1 \<and>
      (\<exists>resp'. wsgi_app example_env (DeleteSale 1) (auth_request (Some ''Bearer good'')) db' =
         (Reply resp', db') \<and> status resp' = 404)"
    using t1 shop_sales(1) by (simp del: ex_simps) blast
  show ?thesis using shop_facts shop_sales a b by blast
qed

section \<open>One format for every reply\<close>



























end
